theory Spec2Isabelle
  imports Complex_Main
begin

section \<open>Python values\<close>

text \<open>
  Everything the client and the coordinator handle is a value decoded from JSON (or a
  dict literal built from such values), so one datatype of JSON values carries the
  whole model. \<open>JNull\<close> is Python's \<open>None\<close>. A dict is an association list in
  insertion order; a lookup takes the first binding of a key. \<open>JFloat\<close> holds a finite
  float by its exact value; only its truth value is ever observed.
\<close>

datatype json =
    JNull
  | JBool bool
  | JInt int
  | JFloat rat
  | JStr string
  | JList "json list"
  | JDict "(string \<times> json) list"

text \<open>What the code can raise, one constructor per exception class.
  \<open>Exception m\<close> is the source's \<^verbatim>\<open>raise Exception(m)\<close>; \<open>HTTPError\<close> is what
  \<^verbatim>\<open>resp.raise_for_status()\<close> raises, \<open>RequestException\<close> any failure of
  \<^verbatim>\<open>requests.post\<close> itself (no connection, timeout), \<open>JSONDecodeError\<close> what
  \<^verbatim>\<open>resp.json()\<close> raises on a body that is not JSON.\<close>

datatype error =
    AttributeError
  | TypeError
  | KeyError
  | IndexError
  | OverflowError
  | HTTPError int
  | RequestException
  | JSONDecodeError
  | Exception json

text \<open>Truth value testing: \<^verbatim>\<open>if x\<close>, \<^verbatim>\<open>not x\<close>, \<^verbatim>\<open>x or y\<close>, \<^verbatim>\<open>x and y\<close>.\<close>

fun truthy :: "json \<Rightarrow> bool" where
  "truthy JNull = False"
| "truthy (JBool b) = b"
| "truthy (JInt n) = (n \<noteq> 0)"
| "truthy (JFloat x) = (x \<noteq> 0)"
| "truthy (JStr s) = (s \<noteq> [])"
| "truthy (JList xs) = (xs \<noteq> [])"
| "truthy (JDict kv) = (kv \<noteq> [])"

definition py_or :: "json \<Rightarrow> json \<Rightarrow> json" where
  "py_or a b = (if truthy a then a else b)"

fun is_dict :: "json \<Rightarrow> bool" where
  "is_dict (JDict kv) = True"
| "is_dict v = False"

text \<open>\<^verbatim>\<open>x.get(k, default)\<close>: only a dict has the method.\<close>

fun py_get_default :: "json \<Rightarrow> string \<Rightarrow> json \<Rightarrow> error + json" where
  "py_get_default (JDict kv) k d = Inr (case map_of kv k of None \<Rightarrow> d | Some v \<Rightarrow> v)"
| "py_get_default v k d = Inl AttributeError"

definition py_get :: "json \<Rightarrow> string \<Rightarrow> error + json" where
  "py_get x k = py_get_default x k JNull"

text \<open>\<^verbatim>\<open>x[k]\<close> with a string key, and \<^verbatim>\<open>x[i]\<close> with an integer index (a negative
  index counts from the end). The keys of a decoded JSON object are strings, so an
  integer never finds one.\<close>

fun py_item :: "json \<Rightarrow> string \<Rightarrow> error + json" where
  "py_item (JDict kv) k = (case map_of kv k of None \<Rightarrow> Inl KeyError | Some v \<Rightarrow> Inr v)"
| "py_item v k = Inl TypeError"

definition py_index :: "'a list \<Rightarrow> int \<Rightarrow> error + 'a" where
  "py_index xs i =
     (if 0 \<le> i \<and> i < int (length xs) then Inr (xs ! nat i)
      else if i < 0 \<and> - int (length xs) \<le> i then Inr (xs ! nat (int (length xs) + i))
      else Inl IndexError)"

fun py_item_int :: "json \<Rightarrow> int \<Rightarrow> error + json" where
  "py_item_int (JList xs) i = py_index xs i"
| "py_item_int (JStr s) i = (case py_index s i of Inl e \<Rightarrow> Inl e | Inr c \<Rightarrow> Inr (JStr [c]))"
| "py_item_int (JDict kv) i = Inl KeyError"
| "py_item_int v i = Inl TypeError"

text \<open>\<^verbatim>\<open>for err in x\<close>: a list yields its elements, a dict its keys, a string its
  characters; nothing else is iterable.\<close>

fun py_iter :: "json \<Rightarrow> error + json list" where
  "py_iter (JList xs) = Inr xs"
| "py_iter (JDict kv) = Inr (map JStr (remdups (map fst kv)))"
| "py_iter (JStr s) = Inr (map (\<lambda>c. JStr [c]) s)"
| "py_iter v = Inl TypeError"

text \<open>\<^verbatim>\<open>"k" in x\<close> for a string \<open>k\<close>: a key of a dict, an element of a list, a
  substring of a string.\<close>

fun starts_with :: "string \<Rightarrow> string \<Rightarrow> bool" where
  "starts_with [] s = True"
| "starts_with (a # p) [] = False"
| "starts_with (a # p) (b # s) = (a = b \<and> starts_with p s)"

fun substring :: "string \<Rightarrow> string \<Rightarrow> bool" where
  "substring p [] = (p = [])"
| "substring p (b # s) = (starts_with p (b # s) \<or> substring p s)"

fun py_in :: "string \<Rightarrow> json \<Rightarrow> error + bool" where
  "py_in k (JDict kv) = Inr (map_of kv k \<noteq> None)"
| "py_in k (JList xs) = Inr (JStr k \<in> set xs)"
| "py_in k (JStr s) = Inr (substring k s)"
| "py_in k v = Inl TypeError"

section \<open>The API client (api.py)\<close>

subsection \<open>Requests, the transport and the log\<close>

text \<open>The five request documents of api.py are fixed texts; they are named here by
  their operation. A payload is the dict \<^verbatim>\<open>{"query": ..., "operationName": ...,
  "variables": ...}\<close>; \<open>variables = None\<close> is a payload without that key.\<close>

datatype document =
    LoginMutation
  | SmartBatteriesQuery
  | SmartBatterySummaryQuery
  | SmartBatteryQuery
  | SmartBatterySessionsQuery

record payload =
  query_doc :: document
  operationName :: string
  variables :: "(string \<times> json) list option"

text \<open>A header value is a literal, or the f-string \<^verbatim>\<open>f"Bearer {token}"\<close>: the text
  \<open>Bearer\<close>, a space, and the token as \<^verbatim>\<open>str\<close> prints it.\<close>

datatype header_value = Literal string | Bearer json

type_synonym headers = "(string \<times> header_value) list"

record request =
  url :: string
  json_body :: payload
  req_headers :: headers
  timeout :: nat

text \<open>What \<^verbatim>\<open>requests.post\<close> comes back with: it raises, or returns a response with
  a status code and a body; the body is \<open>None\<close> when it does not decode as JSON.\<close>

datatype exchange = NoResponse | Response int "json option"

type_synonym network = "request \<Rightarrow> exchange"

datatype log_record = Debug string json | Warning string json

text \<open>The effects of a call: the requests posted and the log records written, oldest
  first.\<close>

record world =
  sent :: "request list"
  log :: "log_record list"

subsection \<open>The client\<close>

text \<open>\<^verbatim>\<open>self.auth\<close>: \<open>None\<close>, or whatever the constructor or \<open>login\<close> stored.\<close>

record FrankEnergie =
  auth :: json

definition DATA_URL :: string where
  "DATA_URL = ''https://frank-graphql-prod.graphcdn.app/''"

text \<open>
  \<^verbatim>\<open>
  def __init__(self, auth_token=None, refresh_token=None):
      self.auth = (
          {"authToken": auth_token, "refreshToken": refresh_token}
          if auth_token or refresh_token
          else None
      )
  \<close>
\<close>

definition init :: "json \<Rightarrow> json \<Rightarrow> FrankEnergie" where
  "init auth_token refresh_token =
     \<lparr>auth = (if truthy (py_or auth_token refresh_token)
              then JDict [(''authToken'', auth_token), (''refreshToken'', refresh_token)]
              else JNull)\<rparr>"

text \<open>
  \<^verbatim>\<open>
  def _headers(self):
      headers = {"Content-Type": "application/json", "User-Agent": "Python/FrankV1"}
      token = None
      if self.auth:
          token = self.auth.get("authToken") or self.auth.get("auth_token")
      if token:
          headers["Authorization"] = f"Bearer {token}"
      return headers
  \<close>
\<close>

definition base_headers :: headers where
  "base_headers =
     [(''Content-Type'', Literal ''application/json''),
      (''User-Agent'', Literal ''Python/FrankV1'')]"

definition auth_token_of :: "json \<Rightarrow> error + json" where
  "auth_token_of a =
     (case py_get a ''authToken'' of
        Inl e \<Rightarrow> Inl e
      | Inr t \<Rightarrow> if truthy t then Inr t else py_get a ''auth_token'')"

definition client_headers :: "FrankEnergie \<Rightarrow> error + headers" where
  "client_headers c =
     (case (if truthy (auth c) then auth_token_of (auth c) else Inr JNull) of
        Inl e \<Rightarrow> Inl e
      | Inr token \<Rightarrow>
          Inr (if truthy token then base_headers @ [(''Authorization'', Bearer token)]
               else base_headers))"

text \<open>\<^verbatim>\<open>Response.raise_for_status()\<close> of the requests library raises \<open>HTTPError\<close> for
  a client error (400 to 499) and for a server error (500 to 599), and for no other
  status code.\<close>

definition raise_for_status :: "int \<Rightarrow> error + unit" where
  "raise_for_status status_code =
     (if 400 \<le> status_code \<and> status_code < 500 then Inl (HTTPError status_code)
      else if 500 \<le> status_code \<and> status_code < 600 then Inl (HTTPError status_code)
      else Inr ())"

text \<open>
  \<^verbatim>\<open>
  def query(self, query_data: dict) -> dict:
      resp = requests.post(self.DATA_URL, json=query_data, headers=self._headers(), timeout=30)
      resp.raise_for_status()
      data = resp.json()
      if isinstance(data, dict) and "errors" in data:
          for err in data.get("errors") or []:
              msg = err.get("message")
              if msg == "user-error:auth-not-authorised":
                  raise Exception("Authentication required")
          _LOGGER.debug("GraphQL errors: %s", data["errors"])
      return data
  \<close>
  The loop over the error list, then the function. The request is recorded before the
  transport answers; nothing is logged on a path that raises.
\<close>

definition auth_not_authorised :: string where
  "auth_not_authorised = ''user-error:auth-not-authorised''"

abbreviation authentication_required :: error where
  "authentication_required \<equiv> Exception (JStr ''Authentication required'')"

fun scan_errors :: "json list \<Rightarrow> error + unit" where
  "scan_errors [] = Inr ()"
| "scan_errors (err # errs) =
     (case py_get err ''message'' of
        Inl e \<Rightarrow> Inl e
      | Inr msg \<Rightarrow>
          if msg = JStr auth_not_authorised then Inl authentication_required
          else scan_errors errs)"

definition check_graphql_errors :: "json \<Rightarrow> error + unit" where
  "check_graphql_errors data =
     (case py_get data ''errors'' of
        Inl e \<Rightarrow> Inl e
      | Inr errs \<Rightarrow>
          (case py_iter (py_or errs (JList [])) of
             Inl e \<Rightarrow> Inl e
           | Inr es \<Rightarrow> scan_errors es))"

definition has_errors :: "json \<Rightarrow> bool" where
  "has_errors data = (is_dict data \<and> py_in ''errors'' data = Inr True)"

definition handle_response :: "exchange \<Rightarrow> world \<Rightarrow> (error + json) \<times> world" where
  "handle_response x w =
     (case x of
        NoResponse \<Rightarrow> (Inl RequestException, w)
      | Response status_code body \<Rightarrow>
          (case raise_for_status status_code of
             Inl e \<Rightarrow> (Inl e, w)
           | Inr u \<Rightarrow>
               (case body of
                  None \<Rightarrow> (Inl JSONDecodeError, w)
                | Some data \<Rightarrow>
                    if has_errors data then
                      (case check_graphql_errors data of
                         Inl e \<Rightarrow> (Inl e, w)
                       | Inr u \<Rightarrow>
                           (case py_item data ''errors'' of
                              Inl e \<Rightarrow> (Inl e, w)
                            | Inr errs \<Rightarrow>
                                (Inr data,
                                 w\<lparr>log := log w @ [Debug ''GraphQL errors: %s'' errs]\<rparr>)))
                    else (Inr data, w))))"

definition query :: "network \<Rightarrow> FrankEnergie \<Rightarrow> payload \<Rightarrow> world \<Rightarrow> (error + json) \<times> world" where
  "query net c query_data w =
     (case client_headers c of
        Inl e \<Rightarrow> (Inl e, w)
      | Inr h \<Rightarrow>
          (let req = \<lparr>url = DATA_URL, json_body = query_data, req_headers = h, timeout = 30\<rparr>
           in handle_response (net req) (w\<lparr>sent := sent w @ [req]\<rparr>)))"

subsection \<open>Login\<close>

text \<open>
  \<^verbatim>\<open>
  def login(self, username: str, password: str) -> dict:
      payload = {"query": ..., "operationName": "Login",
                 "variables": {"email": username, "password": password}}
      data = self.query(payload)
      if not data or "data" not in data or not data["data"].get("login"):
          # Toon eerste error indien aanwezig
          if data and data.get("errors"):
              raise Exception(data["errors"][0].get("message", "Login failed"))
          raise Exception("Login failed: empty response")
      self.auth = data["data"]["login"]
      return self.auth
  \<close>
  \<open>no_login\<close> is the condition of the \<^verbatim>\<open>if\<close>, evaluated left to right with the
  short cuts of \<^verbatim>\<open>or\<close>; \<open>login_failure\<close> is the exception its body ends with.
\<close>

definition login_payload :: "string \<Rightarrow> string \<Rightarrow> payload" where
  "login_payload username password =
     \<lparr>query_doc = LoginMutation, operationName = ''Login'',
      variables = Some [(''email'', JStr username), (''password'', JStr password)]\<rparr>"

definition no_login :: "json \<Rightarrow> error + bool" where
  "no_login data =
     (if \<not> truthy data then Inr True
      else (case py_in ''data'' data of
              Inl e \<Rightarrow> Inl e
            | Inr present \<Rightarrow>
                if \<not> present then Inr True
                else (case py_item data ''data'' of
                        Inl e \<Rightarrow> Inl e
                      | Inr d \<Rightarrow>
                          (case py_get d ''login'' of
                             Inl e \<Rightarrow> Inl e
                           | Inr l \<Rightarrow> Inr (\<not> truthy l)))))"

definition login_failure :: "json \<Rightarrow> error" where
  "login_failure data =
     (if \<not> truthy data then Exception (JStr ''Login failed: empty response'')
      else (case py_get data ''errors'' of
              Inl e \<Rightarrow> e
            | Inr errs \<Rightarrow>
                if \<not> truthy errs then Exception (JStr ''Login failed: empty response'')
                else (case py_item data ''errors'' of
                        Inl e \<Rightarrow> e
                      | Inr errs' \<Rightarrow>
                          (case py_item_int errs' 0 of
                             Inl e \<Rightarrow> e
                           | Inr first \<Rightarrow>
                               (case py_get_default first ''message'' (JStr ''Login failed'') of
                                  Inl e \<Rightarrow> e
                                | Inr m \<Rightarrow> Exception m)))))"

definition login ::
  "network \<Rightarrow> FrankEnergie \<Rightarrow> string \<Rightarrow> string \<Rightarrow> world \<Rightarrow> (error + json) \<times> FrankEnergie \<times> world" where
  "login net c username password w =
     (case query net c (login_payload username password) w of
        (Inl e, w') \<Rightarrow> (Inl e, c, w')
      | (Inr data, w') \<Rightarrow>
          (case no_login data of
             Inl e \<Rightarrow> (Inl e, c, w')
           | Inr missing \<Rightarrow>
               if missing then (Inl (login_failure data), c, w')
               else (case py_item data ''data'' of
                       Inl e \<Rightarrow> (Inl e, c, w')
                     | Inr d \<Rightarrow>
                         (case py_item d ''login'' of
                            Inl e \<Rightarrow> (Inl e, c, w')
                          | Inr a \<Rightarrow> (Inr a, c\<lparr>auth := a\<rparr>, w')))))"

text \<open>
  \<^verbatim>\<open>
  def is_authenticated(self) -> bool:
      return bool(self.auth and (self.auth.get("authToken") or self.auth.get("auth_token")))
  \<close>
\<close>

definition is_authenticated :: "FrankEnergie \<Rightarrow> error + bool" where
  "is_authenticated c =
     (if \<not> truthy (auth c) then Inr False
      else (case auth_token_of (auth c) of
              Inl e \<Rightarrow> Inl e
            | Inr t \<Rightarrow> Inr (truthy t)))"

subsection \<open>Dates\<close>

text \<open>The coordinator passes \<^verbatim>\<open>datetime\<close> objects. The proleptic Gregorian calendar
  of the datetime module: a valid object has a year from 1 to 9999, a month from 1 to
  12 and a day of that month.\<close>

record datetime =
  year :: int
  month :: int
  day :: int
  hour :: int
  minute :: int
  second :: int
  microsecond :: int

definition is_leap :: "int \<Rightarrow> bool" where
  "is_leap y = (y mod 4 = 0 \<and> (y mod 100 \<noteq> 0 \<or> y mod 400 = 0))"

definition DAYS_IN_MONTH :: "int list" where
  "DAYS_IN_MONTH = [-1, 31, 28, 31, 30, 31, 30, 31, 31, 30, 31, 30, 31]"

definition DAYS_BEFORE_MONTH :: "int list" where
  "DAYS_BEFORE_MONTH = [-1, 0, 31, 59, 90, 120, 151, 181, 212, 243, 273, 304, 334]"

definition days_in_month :: "int \<Rightarrow> int \<Rightarrow> int" where
  "days_in_month y m = (if m = 2 \<and> is_leap y then 29 else DAYS_IN_MONTH ! nat m)"

definition valid_datetime :: "datetime \<Rightarrow> bool" where
  "valid_datetime d =
     (1 \<le> year d \<and> year d \<le> 9999 \<and> 1 \<le> month d \<and> month d \<le> 12 \<and>
      1 \<le> day d \<and> day d \<le> days_in_month (year d) (month d) \<and>
      0 \<le> hour d \<and> hour d < 24 \<and> 0 \<le> minute d \<and> minute d < 60 \<and>
      0 \<le> second d \<and> second d < 60 \<and> 0 \<le> microsecond d \<and> microsecond d < 1000000)"

text \<open>\<^verbatim>\<open>d.strftime("%Y-%m-%d")\<close> hands the format to the C library. The month and
  the day come as two decimal digits, zero-padded. The year comes as glibc prints
  \<open>%Y\<close>: the decimal number without padding, so four digits from 1000 on and fewer
  below (year 999 gives \<open>999\<close>, year 1 gives \<open>1\<close>). A datetime has a year from 1 to
  9999, so four digits are the most.\<close>

definition digit :: "int \<Rightarrow> char" where
  "digit n = ''0123456789'' ! nat (n mod 10)"

definition year_digits :: "int \<Rightarrow> string" where
  "year_digits y =
     (if y < 10 then [digit y]
      else if y < 100 then [digit (y div 10), digit y]
      else if y < 1000 then [digit (y div 100), digit (y div 10), digit y]
      else [digit (y div 1000), digit (y div 100), digit (y div 10), digit y])"

definition strftime_Ymd :: "datetime \<Rightarrow> string" where
  "strftime_Ymd d =
     year_digits (year d)
     @ ''-'' @ [digit (month d div 10), digit (month d)]
     @ ''-'' @ [digit (day d div 10), digit (day d)]"

text \<open>\<^verbatim>\<open>d - timedelta(days=n)\<close>: through the ordinal of the date (day 1 is
  0001-01-01), as the datetime module computes it; the time of day is kept. A result
  before day 1 or after 9999-12-31 raises \<open>OverflowError\<close>.\<close>

definition days_before_year :: "int \<Rightarrow> int" where
  "days_before_year y = (let y1 = y - 1 in y1 * 365 + y1 div 4 - y1 div 100 + y1 div 400)"

definition days_before_month :: "int \<Rightarrow> int \<Rightarrow> int" where
  "days_before_month y m = DAYS_BEFORE_MONTH ! nat m + (if m > 2 \<and> is_leap y then 1 else 0)"

definition toordinal :: "datetime \<Rightarrow> int" where
  "toordinal d = days_before_year (year d) + days_before_month (year d) (month d) + day d"

definition ord2ymd :: "int \<Rightarrow> int \<times> int \<times> int" where
  "ord2ymd n0 =
     (let n = n0 - 1;
          n400 = n div 146097; n = n mod 146097;
          n100 = n div 36524; n = n mod 36524;
          n4 = n div 1461; n = n mod 1461;
          n1 = n div 365; n = n mod 365;
          y = n400 * 400 + 1 + n100 * 100 + n4 * 4 + n1
      in if n1 = 4 \<or> n100 = 4 then (y - 1, 12, 31)
         else (let leapyear = (n1 = 3 \<and> (n4 \<noteq> 24 \<or> n100 = 3));
                   m = (n + 50) div 32;
                   preceding = DAYS_BEFORE_MONTH ! nat m + (if m > 2 \<and> leapyear then 1 else 0)
               in if preceding > n
                  then (let m' = m - 1;
                            preceding' = preceding
                              - (DAYS_IN_MONTH ! nat m' + (if m' = 2 \<and> leapyear then 1 else 0))
                        in (y, m', n - preceding' + 1))
                  else (y, m, n - preceding + 1)))"

definition MAXORDINAL :: int where
  "MAXORDINAL = 3652059"

definition minus_days :: "datetime \<Rightarrow> int \<Rightarrow> error + datetime" where
  "minus_days d n =
     (let days = toordinal d - n
      in if 0 < days \<and> days \<le> MAXORDINAL
         then (case ord2ymd days of (y, m, dd) \<Rightarrow> Inr (d\<lparr>year := y, month := m, day := dd\<rparr>))
         else Inl OverflowError)"

subsection \<open>The read operations\<close>

text \<open>Each of the four starts with
  \<^verbatim>\<open>
      if not self.auth:
          raise Exception("Authentication required")
  \<close>
  and ends with \<^verbatim>\<open>return self.query(payload)\<close> on its own fixed payload.\<close>

definition batteries_payload :: payload where
  "batteries_payload =
     \<lparr>query_doc = SmartBatteriesQuery, operationName = ''SmartBatteries'', variables = None\<rparr>"

definition summary_payload :: "string \<Rightarrow> payload" where
  "summary_payload device_id =
     \<lparr>query_doc = SmartBatterySummaryQuery, operationName = ''SmartBatterySummary'',
      variables = Some [(''deviceId'', JStr device_id)]\<rparr>"

definition battery_payload :: "string \<Rightarrow> payload" where
  "battery_payload device_id =
     \<lparr>query_doc = SmartBatteryQuery, operationName = ''SmartBattery'',
      variables = Some [(''deviceId'', JStr device_id)]\<rparr>"

definition sessions_payload :: "string \<Rightarrow> datetime \<Rightarrow> datetime \<Rightarrow> payload" where
  "sessions_payload device_id start_date end_date =
     \<lparr>query_doc = SmartBatterySessionsQuery, operationName = ''SmartBatterySessions'',
      variables = Some [(''deviceId'', JStr device_id),
                        (''startDate'', JStr (strftime_Ymd start_date)),
                        (''endDate'', JStr (strftime_Ymd end_date))]\<rparr>"

definition get_smart_batteries ::
  "network \<Rightarrow> FrankEnergie \<Rightarrow> world \<Rightarrow> (error + json) \<times> world" where
  "get_smart_batteries net c w =
     (if \<not> truthy (auth c) then (Inl authentication_required, w)
      else query net c batteries_payload w)"

definition get_smart_battery_summary ::
  "network \<Rightarrow> FrankEnergie \<Rightarrow> string \<Rightarrow> world \<Rightarrow> (error + json) \<times> world" where
  "get_smart_battery_summary net c device_id w =
     (if \<not> truthy (auth c) then (Inl authentication_required, w)
      else query net c (summary_payload device_id) w)"

definition get_smart_battery ::
  "network \<Rightarrow> FrankEnergie \<Rightarrow> string \<Rightarrow> world \<Rightarrow> (error + json) \<times> world" where
  "get_smart_battery net c device_id w =
     (if \<not> truthy (auth c) then (Inl authentication_required, w)
      else query net c (battery_payload device_id) w)"

definition get_smart_battery_sessions ::
  "network \<Rightarrow> FrankEnergie \<Rightarrow> string \<Rightarrow> datetime \<Rightarrow> datetime \<Rightarrow> world \<Rightarrow> (error + json) \<times> world" where
  "get_smart_battery_sessions net c device_id start_date end_date w =
     (if \<not> truthy (auth c) then (Inl authentication_required, w)
      else query net c (sessions_payload device_id start_date end_date) w)"

section \<open>The polling coordinator and its sensors (sensor.py)\<close>

text \<open>One coordinator per device: the device id, and the two cached nodes, both
  \<open>None\<close> until a poll stores something. The client is shared and a poll never
  changes it.\<close>

record FrankBatteryCoordinator =
  device_id :: string
  summary :: json
  sessions_node :: json

definition new_coordinator :: "string \<Rightarrow> FrankBatteryCoordinator" where
  "new_coordinator dev = \<lparr>device_id = dev, summary = JNull, sessions_node = JNull\<rparr>"

text \<open>
  \<^verbatim>\<open>
  def _fetch():
      summary = self._client.get_smart_battery_summary(self.device_id)
      end = datetime.utcnow()
      start = end - timedelta(days=7)
      sessions = self._client.get_smart_battery_sessions(self.device_id, start, end)
      return {"summary": summary, "sessions": sessions}
  \<close>
  \<open>now\<close> is what \<^verbatim>\<open>datetime.utcnow()\<close> returns.
\<close>

definition fetch ::
  "network \<Rightarrow> FrankEnergie \<Rightarrow> string \<Rightarrow> datetime \<Rightarrow> world \<Rightarrow> (error + json) \<times> world" where
  "fetch net c dev now w =
     (case get_smart_battery_summary net c dev w of
        (Inl e, w1) \<Rightarrow> (Inl e, w1)
      | (Inr summ, w1) \<Rightarrow>
          (case minus_days now 7 of
             Inl e \<Rightarrow> (Inl e, w1)
           | Inr start \<Rightarrow>
               (case get_smart_battery_sessions net c dev start now w1 of
                  (Inl e, w2) \<Rightarrow> (Inl e, w2)
                | (Inr sess, w2) \<Rightarrow>
                    (Inr (JDict [(''summary'', summ), (''sessions'', sess)]), w2))))"

text \<open>The extraction idiom of the coordinator,
  \<^verbatim>\<open>((data.get(part) or {}).get("data") or {}).get(node)\<close>.\<close>

definition nested_get :: "json \<Rightarrow> string \<Rightarrow> string \<Rightarrow> error + json" where
  "nested_get data part node =
     (case py_get data part of
        Inl e \<Rightarrow> Inl e
      | Inr p \<Rightarrow>
          (case py_get (py_or p (JDict [])) ''data'' of
             Inl e \<Rightarrow> Inl e
           | Inr d \<Rightarrow> py_get (py_or d (JDict [])) node))"

text \<open>
  \<^verbatim>\<open>
  async def _async_update_data(self):
      data = await self.hass.async_add_executor_job(_fetch)
      # Defensief parsen
      self.summary = ((data.get("summary") or {}).get("data") or {}).get("smartBatterySummary")
      node = ((data.get("sessions") or {}).get("data") or {}).get("smartBatterySessions")
      if not node:
          _LOGGER.warning("Geen smartBatterySessions in response voor %s", self.device_id)
          self.sessions_node = None
          return data
      sessions = (node.get("sessions") or []) if isinstance(node, dict) else []
      self.sessions_node = {
          "periodTradingResult": node.get("periodTradingResult"),
          "sessions": sessions,
      }
      return data
  \<close>
  The executor job runs \<open>_fetch\<close> to its end and hands its result or its exception
  back. An assignment that ran before an exception stays.
\<close>

definition store_sessions :: "json \<Rightarrow> error + json" where
  "store_sessions node =
     (case (if is_dict node
            then (case py_get node ''sessions'' of
                    Inl e \<Rightarrow> Inl e
                  | Inr s \<Rightarrow> Inr (py_or s (JList [])))
            else Inr (JList [])) of
        Inl e \<Rightarrow> Inl e
      | Inr sessions \<Rightarrow>
          (case py_get node ''periodTradingResult'' of
             Inl e \<Rightarrow> Inl e
           | Inr p \<Rightarrow> Inr (JDict [(''periodTradingResult'', p), (''sessions'', sessions)])))"

definition async_update_data ::
  "network \<Rightarrow> FrankEnergie \<Rightarrow> datetime \<Rightarrow> FrankBatteryCoordinator \<Rightarrow> world
     \<Rightarrow> (error + json) \<times> FrankBatteryCoordinator \<times> world" where
  "async_update_data net c now co w =
     (case fetch net c (device_id co) now w of
        (Inl e, w') \<Rightarrow> (Inl e, co, w')
      | (Inr data, w') \<Rightarrow>
          (case nested_get data ''summary'' ''smartBatterySummary'' of
             Inl e \<Rightarrow> (Inl e, co, w')
           | Inr s \<Rightarrow>
               (let co1 = co\<lparr>summary := s\<rparr>
                in case nested_get data ''sessions'' ''smartBatterySessions'' of
                     Inl e \<Rightarrow> (Inl e, co1, w')
                   | Inr node \<Rightarrow>
                       if \<not> truthy node
                       then (Inr data, co1\<lparr>sessions_node := JNull\<rparr>,
                             w'\<lparr>log := log w' @
                                [Warning ''Geen smartBatterySessions in response voor %s''
                                   (JStr (device_id co))]\<rparr>)
                       else (case store_sessions node of
                               Inl e \<Rightarrow> (Inl e, co1, w')
                             | Inr stored \<Rightarrow> (Inr data, co1\<lparr>sessions_node := stored\<rparr>, w')))))"

text \<open>
  The trading result sensor:
  \<^verbatim>\<open>
  @property
  def state(self):
      node = self.coordinator.sessions_node or {}
      if node.get("periodTradingResult") is not None:
          return node["periodTradingResult"]
      sessions = node.get("sessions") or []
      if sessions:
          last = sessions[-1]
          return last.get("cumulativeResult")
      return None
  \<close>
\<close>

definition trading_result_state :: "FrankBatteryCoordinator \<Rightarrow> error + json" where
  "trading_result_state co =
     (let node = py_or (sessions_node co) (JDict [])
      in case py_get node ''periodTradingResult'' of
           Inl e \<Rightarrow> Inl e
         | Inr p \<Rightarrow>
             if p \<noteq> JNull then py_item node ''periodTradingResult''
             else (case py_get node ''sessions'' of
                     Inl e \<Rightarrow> Inl e
                   | Inr s \<Rightarrow>
                       (let sessions = py_or s (JList [])
                        in if truthy sessions
                           then (case py_item_int sessions (- 1) of
                                   Inl e \<Rightarrow> Inl e
                                 | Inr last_session \<Rightarrow> py_get last_session ''cumulativeResult'')
                           else Inr JNull)))"

section \<open>Notions of the specification\<close>

text \<open>The specification speaks of the nested node of a response payload, of a payload
  lacking it, and of the \<open>YYYY-MM-DD\<close> form of a date. These are its words as
  definitions; the theorems compare the code with them.\<close>

text \<open>The member \<open>k\<close> of a JSON object; \<open>None\<close> when the value is no object or has no
  such member.\<close>

fun field_of :: "json \<Rightarrow> string \<Rightarrow> json" where
  "field_of (JDict kv) k = (case map_of kv k of None \<Rightarrow> JNull | Some v \<Rightarrow> v)"
| "field_of v k = JNull"

text \<open>The node \<open>k\<close> of a response payload \<open>p\<close>: the member \<open>k\<close> of its \<open>data\<close> member;
  \<open>None\<close> when the payload lacks it.\<close>

definition response_node :: "json \<Rightarrow> string \<Rightarrow> json" where
  "response_node p k = field_of (field_of p ''data'') k"

text \<open>The shape of a GraphQL response: a JSON object whose \<open>data\<close> member, when it has
  one, is an object or null. Empty values are let through where the coordinator's
  \<^verbatim>\<open>or {}\<close> lets them through.\<close>

definition object_or_empty :: "json \<Rightarrow> bool" where
  "object_or_empty v = (is_dict v \<or> \<not> truthy v)"

definition response_shaped :: "json \<Rightarrow> bool" where
  "response_shaped p = (object_or_empty p \<and> object_or_empty (field_of p ''data''))"

text \<open>A string has the form \<open>YYYY-MM-DD\<close> of the date \<open>y\<close>, \<open>m\<close>, \<open>d\<close>: ten characters,
  four decimal digits that read \<open>y\<close>, a hyphen, two that read \<open>m\<close>, a hyphen, two that
  read \<open>d\<close>.\<close>

definition is_digit :: "char \<Rightarrow> bool" where
  "is_digit ch = (ch \<in> set ''0123456789'')"

definition decimal :: "string \<Rightarrow> int" where
  "decimal s = foldl (\<lambda>acc ch. 10 * acc + (of_char ch - 48)) 0 s"

definition Ymd_form :: "string \<Rightarrow> int \<Rightarrow> int \<Rightarrow> int \<Rightarrow> bool" where
  "Ymd_form s y m d =
     (length s = 10 \<and> s ! 4 = CHR ''-'' \<and> s ! 7 = CHR ''-'' \<and>
      list_all is_digit (take 4 s @ take 2 (drop 5 s) @ drop 8 s) \<and>
      decimal (take 4 s) = y \<and> decimal (take 2 (drop 5 s)) = m \<and> decimal (drop 8 s) = d)"

section \<open>Fixtures for the examples\<close>

text \<open>The examples below run the code at a fixed time against a transport that answers
  the summary query with one body and every other request with another, both with
  status 200.\<close>

definition example_now :: datetime where
  "example_now = \<lparr>year = 2024, month = 3, day = 5, hour = 12, minute = 0, second = 0,
                   microsecond = 0\<rparr>"

definition answering :: "json \<Rightarrow> json \<Rightarrow> network" where
  "answering summary_body sessions_body =
     (\<lambda>r. if operationName (json_body r) = ''SmartBatterySummary''
          then Response 200 (Some summary_body)
          else Response 200 (Some sessions_body))"

section \<open>Properties of the client\<close>

lemma scan_errors_sentinel:
  "\<forall>x \<in> set pre. is_dict x \<Longrightarrow> map_of ekv ''message'' = Some (JStr auth_not_authorised) \<Longrightarrow>
   scan_errors (pre @ JDict ekv # post) = Inl authentication_required"
proof (induction pre)
  case Nil
  then show ?case by (simp add: py_get_def)
next
  case (Cons x pre)
  then obtain kv where "x = JDict kv" by (cases x) auto
  with Cons show ?case by (simp add: py_get_def)
qed

lemma raise_for_status_passes:
  "status < 400 \<or> 600 \<le> status \<Longrightarrow> raise_for_status status = Inr ()"
  by (auto simp: raise_for_status_def)

lemma raise_for_status_raises:
  "400 \<le> status \<Longrightarrow> status < 600 \<Longrightarrow> raise_for_status status = Inl (HTTPError status)"
  by (auto simp: raise_for_status_def)

text \<open>
  \<^bold>\<open>C1\<close> (as amended). The claim: whenever the JSON body carries a GraphQL error whose
  message is \<open>user-error:auth-not-authorised\<close>, \<open>query\<close> raises the authentication
  error, whatever the HTTP status. That fails for a status from 400 to 599, where
  \<open>raise_for_status\<close> raises before the body is read, and for an error list with an
  entry before the sentinel that is not an object. What holds: when the status is
  outside 400 to 599, the body is an object whose \<open>errors\<close> member is a list, some entry
  of the list is an object whose message is the sentinel, and every entry before it is
  an object, \<open>query\<close> raises \<^verbatim>\<open>Exception("Authentication required")\<close>, after
  posting the request and without logging.
\<close>

theorem query_auth_not_authorised:
  assumes "client_headers c = Inr h"
    and "net \<lparr>url = DATA_URL, json_body = p, req_headers = h, timeout = 30\<rparr>
           = Response status (Some (JDict kv))"
    and "status < 400 \<or> 600 \<le> status"
    and "map_of kv ''errors'' = Some (JList (pre @ JDict ekv # post))"
    and "\<forall>x \<in> set pre. is_dict x"
    and "map_of ekv ''message'' = Some (JStr auth_not_authorised)"
  shows "query net c p w =
           (Inl authentication_required,
            w\<lparr>sent := sent w @ [\<lparr>url = DATA_URL, json_body = p, req_headers = h, timeout = 30\<rparr>]\<rparr>)"
proof -
  have "check_graphql_errors (JDict kv) = Inl authentication_required"
    using assms(4-6) by (simp add: check_graphql_errors_def py_get_def py_or_def scan_errors_sentinel)
  moreover have "has_errors (JDict kv)"
    using assms(4) by (simp add: has_errors_def)
  ultimately show ?thesis
    using assms(1-3) by (simp add: query_def handle_response_def raise_for_status_passes)
qed

text \<open>
  \<^bold>\<open>C5\<close> (as amended). The claim: for every response with a status code of 400 or more,
  \<open>query\<close> raises the transport error and never reads the body. \<open>raise_for_status\<close>
  raises for the codes 400 to 599 only, so the claim fails from 600 on. What holds: for
  every status code from 400 to 599 and every body, \<open>query\<close> raises \<open>HTTPError\<close> with
  that code; the outcome does not depend on the body, nothing is logged, and the error
  is not the authentication error.
\<close>

theorem query_http_error:
  assumes "client_headers c = Inr h"
    and "net \<lparr>url = DATA_URL, json_body = p, req_headers = h, timeout = 30\<rparr>
           = Response status body"
    and "400 \<le> status" and "status < 600"
  shows "query net c p w =
           (Inl (HTTPError status),
            w\<lparr>sent := sent w @ [\<lparr>url = DATA_URL, json_body = p, req_headers = h, timeout = 30\<rparr>]\<rparr>)
         \<and> fst (query net c p w) \<noteq> Inl authentication_required"
  using assms by (simp add: query_def handle_response_def raise_for_status_raises)

lemmas py_defs = py_get_def py_or_def py_index_def
lemmas client_defs = query_def handle_response_def client_headers_def auth_token_of_def
  raise_for_status_def has_errors_def check_graphql_errors_def init_def base_headers_def
  DATA_URL_def auth_not_authorised_def
lemmas payload_defs = batteries_payload_def summary_payload_def battery_payload_def
  sessions_payload_def login_payload_def

theorem query_auth_not_authorised_witness:
  "query (\<lambda>r. Response 200 (Some (JDict [(''errors'',
       JList [JDict [(''message'', JStr ''rate limited'')],
              JDict [(''message'', JStr ''user-error:auth-not-authorised'')]])])))
     (init (JStr ''T'') (JStr ''R'')) batteries_payload \<lparr>sent = [], log = []\<rparr>
   = (Inl authentication_required,
      \<lparr>sent = [\<lparr>url = DATA_URL, json_body = batteries_payload,
                req_headers = base_headers @ [(''Authorization'', Bearer (JStr ''T''))],
                timeout = 30\<rparr>],
       log = []\<rparr>)"
  using query_auth_not_authorised
    [of "init (JStr ''T'') (JStr ''R'')"
        "base_headers @ [(''Authorization'', Bearer (JStr ''T''))]"
        "\<lambda>r. Response 200 (Some (JDict [(''errors'',
           JList [JDict [(''message'', JStr ''rate limited'')],
                  JDict [(''message'', JStr ''user-error:auth-not-authorised'')]])]))"
        batteries_payload 200
        "[(''errors'', JList [JDict [(''message'', JStr ''rate limited'')],
                  JDict [(''message'', JStr ''user-error:auth-not-authorised'')]])]"
        "[JDict [(''message'', JStr ''rate limited'')]]"
        "[(''message'', JStr ''user-error:auth-not-authorised'')]" "[]"
        "\<lparr>sent = [], log = []\<rparr>"]
  by (simp add: client_headers_def auth_token_of_def init_def py_defs auth_not_authorised_def)

text \<open>
  Against C1 as stated. A response with status 401 whose errors list holds the sentinel:
  \<open>raise_for_status\<close> raises \<open>HTTPError\<close> and the body is not read. A response with
  status 200 whose errors list is \<^verbatim>\<open>["no object", {"message": sentinel}]\<close>: the loop
  calls \<^verbatim>\<open>.get\<close> on the string first and raises \<open>AttributeError\<close>.
\<close>

theorem query_auth_not_authorised_counterexample:
  "fst (query (\<lambda>r. Response 401 (Some (JDict [(''errors'',
          JList [JDict [(''message'', JStr ''user-error:auth-not-authorised'')]])])))
        (init (JStr ''T'') (JStr ''R'')) batteries_payload \<lparr>sent = [], log = []\<rparr>)
     = Inl (HTTPError 401)
   \<and> fst (query (\<lambda>r. Response 200 (Some (JDict [(''errors'',
          JList [JStr ''no object'', JDict [(''message'', JStr ''user-error:auth-not-authorised'')]])])))
        (init (JStr ''T'') (JStr ''R'')) batteries_payload \<lparr>sent = [], log = []\<rparr>)
     = Inl AttributeError"
  by (simp add: client_defs py_defs)

theorem query_http_error_witness:
  "query (\<lambda>r. Response 503 None) (init JNull JNull) batteries_payload \<lparr>sent = [], log = []\<rparr>
   = (Inl (HTTPError 503),
      \<lparr>sent = [\<lparr>url = DATA_URL, json_body = batteries_payload, req_headers = base_headers,
                timeout = 30\<rparr>],
       log = []\<rparr>)"
  using query_http_error
    [of "init JNull JNull" base_headers "\<lambda>r. Response 503 None" batteries_payload 503 None
        "\<lparr>sent = [], log = []\<rparr>"]
  by (simp add: client_headers_def init_def py_defs)

text \<open>
  Against C5 as stated. A response with status 999 passes \<open>raise_for_status\<close>; its
  body is parsed, the sentinel is found and the authentication error is raised.
\<close>

theorem query_http_error_counterexample:
  "fst (query (\<lambda>r. Response 999 (Some (JDict [(''errors'',
          JList [JDict [(''message'', JStr ''user-error:auth-not-authorised'')]])])))
        (init (JStr ''T'') (JStr ''R'')) batteries_payload \<lparr>sent = [], log = []\<rparr>)
     = Inl authentication_required"
  by (simp add: client_defs py_defs)

lemmas read_defs = get_smart_batteries_def get_smart_battery_summary_def get_smart_battery_def
  get_smart_battery_sessions_def

text \<open>
  \<^bold>\<open>C3\<close> (as amended). The claim: in every state where the client is unauthenticated,
  each of the four read operations raises the authentication error without a network
  call. The check the operations make is \<^verbatim>\<open>if not self.auth\<close>: it looks at the
  credential, not at its token, so a client holding a credential without an auth token
  is unauthenticated and still posts. What holds: in every state where no credential is
  held (\<^verbatim>\<open>self.auth\<close> is \<open>None\<close> or empty), \<open>is_authenticated\<close> is false and each of the
  four operations raises \<^verbatim>\<open>Exception("Authentication required")\<close>, posting and
  logging nothing.
\<close>

theorem reads_require_credential:
  assumes "\<not> truthy (auth c)"
  shows "is_authenticated c = Inr False
    \<and> get_smart_batteries net c w = (Inl authentication_required, w)
    \<and> get_smart_battery_summary net c dev w = (Inl authentication_required, w)
    \<and> get_smart_battery net c dev w = (Inl authentication_required, w)
    \<and> get_smart_battery_sessions net c dev start_date end_date w = (Inl authentication_required, w)"
  using assms by (simp add: read_defs is_authenticated_def)

theorem reads_require_credential_witness:
  "is_authenticated (init JNull (JStr [])) = Inr False
    \<and> get_smart_batteries (\<lambda>r. Response 200 (Some (JDict []))) (init JNull (JStr []))
          \<lparr>sent = [], log = []\<rparr>
        = (Inl authentication_required, \<lparr>sent = [], log = []\<rparr>)
    \<and> get_smart_battery_summary (\<lambda>r. Response 200 (Some (JDict []))) (init JNull (JStr []))
          ''dev-1'' \<lparr>sent = [], log = []\<rparr>
        = (Inl authentication_required, \<lparr>sent = [], log = []\<rparr>)"
  using reads_require_credential
    [of "init JNull (JStr [])" "\<lambda>r. Response 200 (Some (JDict []))" "\<lparr>sent = [], log = []\<rparr>"
        "''dev-1''"]
  by (simp add: init_def py_defs)

text \<open>
  Against C3 as stated. \<^verbatim>\<open>FrankEnergie(None, "R")\<close> is unauthenticated, and
  \<open>get_smart_batteries\<close> posts its request (with no \<open>Authorization\<close> header) and
  returns what the server answered.
\<close>

theorem reads_unauthenticated_counterexample:
  "is_authenticated (init JNull (JStr ''R'')) = Inr False
   \<and> get_smart_batteries
        (\<lambda>r. Response 200 (Some (JDict [(''data'', JDict [(''smartBatteries'', JList [])])])))
        (init JNull (JStr ''R'')) \<lparr>sent = [], log = []\<rparr>
     = (Inr (JDict [(''data'', JDict [(''smartBatteries'', JList [])])]),
        \<lparr>sent = [\<lparr>url = DATA_URL, json_body = batteries_payload, req_headers = base_headers,
                  timeout = 30\<rparr>],
         log = []\<rparr>)"
  by (simp add: read_defs is_authenticated_def client_defs py_defs)

lemma headers_without_auth_token:
  assumes "\<not> truthy a"
  shows "client_headers (init a r) = Inr base_headers"
  using assms by (simp add: client_headers_def auth_token_of_def init_def py_defs)

text \<open>
  \<^bold>\<open>C4\<close>. A client constructed with an absent or empty auth token and a non-empty refresh
  token holds a credential: \<open>is_authenticated\<close> is false, yet each of the four read
  operations passes its local check and goes to the network. The request it posts
  carries the base headers only, which have no \<open>Authorization\<close> entry, and the outcome
  is whatever the response to that request gives.
\<close>

theorem empty_token_passes_check:
  assumes "\<not> truthy a" and "truthy r"
  shows "is_authenticated (init a r) = Inr False
    \<and> map_of base_headers ''Authorization'' = None
    \<and> get_smart_batteries net (init a r) w =
        handle_response
          (net \<lparr>url = DATA_URL, json_body = batteries_payload, req_headers = base_headers, timeout = 30\<rparr>)
          (w\<lparr>sent := sent w @ [\<lparr>url = DATA_URL, json_body = batteries_payload,
                                 req_headers = base_headers, timeout = 30\<rparr>]\<rparr>)
    \<and> get_smart_battery_summary net (init a r) dev w =
        handle_response
          (net \<lparr>url = DATA_URL, json_body = summary_payload dev, req_headers = base_headers, timeout = 30\<rparr>)
          (w\<lparr>sent := sent w @ [\<lparr>url = DATA_URL, json_body = summary_payload dev,
                                 req_headers = base_headers, timeout = 30\<rparr>]\<rparr>)
    \<and> get_smart_battery net (init a r) dev w =
        handle_response
          (net \<lparr>url = DATA_URL, json_body = battery_payload dev, req_headers = base_headers, timeout = 30\<rparr>)
          (w\<lparr>sent := sent w @ [\<lparr>url = DATA_URL, json_body = battery_payload dev,
                                 req_headers = base_headers, timeout = 30\<rparr>]\<rparr>)
    \<and> get_smart_battery_sessions net (init a r) dev start_date end_date w =
        handle_response
          (net \<lparr>url = DATA_URL, json_body = sessions_payload dev start_date end_date,
                req_headers = base_headers, timeout = 30\<rparr>)
          (w\<lparr>sent := sent w @ [\<lparr>url = DATA_URL, json_body = sessions_payload dev start_date end_date,
                                 req_headers = base_headers, timeout = 30\<rparr>]\<rparr>)"
proof -
  have t: "truthy (auth (init a r))"
    using assms by (simp add: init_def py_or_def)
  have a: "is_authenticated (init a r) = Inr False"
    using assms by (simp add: is_authenticated_def auth_token_of_def init_def py_defs)
  have h: "client_headers (init a r) = Inr base_headers"
    using assms(1) by (rule headers_without_auth_token)
  have n: "map_of base_headers ''Authorization'' = None"
    by (simp add: base_headers_def)
  show ?thesis
    using t a h n by (simp add: read_defs query_def Let_def)
qed

lemma sent_handle_response: "sent (snd (handle_response x w)) = sent w"
  by (simp add: handle_response_def split: exchange.splits sum.splits option.splits)

theorem empty_token_passes_check_witness:
  "is_authenticated (init (JStr []) (JStr ''refresh-1'')) = Inr False
   \<and> get_smart_battery_summary (\<lambda>r. Response 200 (Some (JDict [(''data'', JNull)])))
        (init (JStr []) (JStr ''refresh-1'')) ''dev-1'' \<lparr>sent = [], log = []\<rparr>
     = (Inr (JDict [(''data'', JNull)]),
        \<lparr>sent = [\<lparr>url = DATA_URL, json_body = summary_payload ''dev-1'',
                  req_headers = base_headers, timeout = 30\<rparr>],
         log = []\<rparr>)"
  using empty_token_passes_check
    [of "JStr []" "JStr ''refresh-1''" "\<lambda>r. Response 200 (Some (JDict [(''data'', JNull)]))"
        "\<lparr>sent = [], log = []\<rparr>" "''dev-1''"]
  by (simp add: handle_response_def raise_for_status_def has_errors_def)

lemmas login_defs = login_def no_login_def login_failure_def

text \<open>
  \<^bold>\<open>C9\<close>. When the response to the login request is
  \<^verbatim>\<open>{"data":{"login":{"authToken":t,"refreshToken":r}}}\<close> with a non-empty \<open>t\<close>
  (the claim's \<open>"T"\<close> and \<open>"R"\<close> are one such pair), \<open>login\<close> returns that credential,
  the client holds exactly it afterwards, whatever it held before, and
  \<open>is_authenticated\<close> is then true.
\<close>

theorem login_success:
  assumes "client_headers c = Inr h"
    and "net \<lparr>url = DATA_URL, json_body = login_payload username password, req_headers = h,
              timeout = 30\<rparr>
         = Response status (Some (JDict [(''data'', JDict [(''login'',
               JDict [(''authToken'', JStr t), (''refreshToken'', JStr r)])])]))"
    and "status < 400 \<or> 600 \<le> status"
    and "t \<noteq> []"
  shows "login net c username password w =
           (Inr (JDict [(''authToken'', JStr t), (''refreshToken'', JStr r)]),
            \<lparr>auth = JDict [(''authToken'', JStr t), (''refreshToken'', JStr r)]\<rparr>,
            w\<lparr>sent := sent w @ [\<lparr>url = DATA_URL, json_body = login_payload username password,
                                   req_headers = h, timeout = 30\<rparr>]\<rparr>)
         \<and> is_authenticated \<lparr>auth = JDict [(''authToken'', JStr t), (''refreshToken'', JStr r)]\<rparr>
             = Inr True"
proof -
  let ?body = "JDict [(''data'', JDict [(''login'',
                 JDict [(''authToken'', JStr t), (''refreshToken'', JStr r)])])]"
  let ?req = "\<lparr>url = DATA_URL, json_body = login_payload username password, req_headers = h,
               timeout = 30\<rparr>"
  have q: "query net c (login_payload username password) w
             = (Inr ?body, w\<lparr>sent := sent w @ [?req]\<rparr>)"
    using assms(1-3)
    by (simp add: query_def handle_response_def raise_for_status_passes has_errors_def)
  have n: "no_login ?body = Inr False"
    by (simp add: no_login_def py_get_def)
  have a: "is_authenticated \<lparr>auth = JDict [(''authToken'', JStr t), (''refreshToken'', JStr r)]\<rparr>
             = Inr True"
    using assms(4) by (simp add: is_authenticated_def auth_token_of_def py_get_def)
  show ?thesis
    using q n a by (simp add: login_def)
qed

theorem login_success_witness:
  "login (\<lambda>r. Response 200 (Some (JDict [(''data'', JDict [(''login'',
             JDict [(''authToken'', JStr ''T''), (''refreshToken'', JStr ''R'')])])])))
     (init JNull JNull) ''u'' ''p'' \<lparr>sent = [], log = []\<rparr>
   = (Inr (JDict [(''authToken'', JStr ''T''), (''refreshToken'', JStr ''R'')]),
      \<lparr>auth = JDict [(''authToken'', JStr ''T''), (''refreshToken'', JStr ''R'')]\<rparr>,
      \<lparr>sent = [\<lparr>url = DATA_URL, json_body = login_payload ''u'' ''p'', req_headers = base_headers,
                timeout = 30\<rparr>],
       log = []\<rparr>)
   \<and> is_authenticated (init JNull JNull) = Inr False
   \<and> is_authenticated \<lparr>auth = JDict [(''authToken'', JStr ''T''), (''refreshToken'', JStr ''R'')]\<rparr>
       = Inr True"
  using login_success
    [of "init JNull JNull" base_headers
        "\<lambda>r. Response 200 (Some (JDict [(''data'', JDict [(''login'',
             JDict [(''authToken'', JStr ''T''), (''refreshToken'', JStr ''R'')])])]))"
        "''u''" "''p''" 200 "''T''" "''R''" "\<lparr>sent = [], log = []\<rparr>"]
  by (simp add: client_headers_def init_def py_defs is_authenticated_def)

text \<open>
  \<^bold>\<open>C6\<close>. The claim: a login response without a login payload makes \<open>login\<close> raise an
  error that carries the first reported message. The standard GraphQL error response
  \<^verbatim>\<open>{"data": null, "errors": [{"message": "bad creds"}]}\<close> has no login payload,
  and on it \<open>login\<close> raises \<open>AttributeError\<close>: the condition calls
  \<^verbatim>\<open>data["data"].get("login")\<close> on \<open>None\<close> before the line that would show the
  message is reached. The credential stays as it was.
\<close>

theorem login_null_data_raises_AttributeError:
  "login (\<lambda>r. Response 200 (Some (JDict [(''data'', JNull),
             (''errors'', JList [JDict [(''message'', JStr ''bad creds'')]])])))
     (init JNull JNull) ''u'' ''p'' \<lparr>sent = [], log = []\<rparr>
   = (Inl AttributeError, init JNull JNull,
      \<lparr>sent = [\<lparr>url = DATA_URL, json_body = login_payload ''u'' ''p'', req_headers = base_headers,
                timeout = 30\<rparr>],
       log = [Debug ''GraphQL errors: %s'' (JList [JDict [(''message'', JStr ''bad creds'')]])]\<rparr>)"
  by (simp add: login_defs client_defs py_defs)

text \<open>
  On the response \<^verbatim>\<open>{"errors": [{"message": "bad creds"}]}\<close>, which has no \<open>data\<close>
  member, \<open>login\<close> raises an exception that carries \<open>bad creds\<close>, and a client without
  a credential stays without one.
\<close>

lemma login_bad_creds:
  "login (\<lambda>r. Response 200 (Some (JDict
             [(''errors'', JList [JDict [(''message'', JStr ''bad creds'')]])])))
     (init JNull JNull) ''u'' ''p'' \<lparr>sent = [], log = []\<rparr>
   = (Inl (Exception (JStr ''bad creds'')), init JNull JNull,
      \<lparr>sent = [\<lparr>url = DATA_URL, json_body = login_payload ''u'' ''p'', req_headers = base_headers,
                timeout = 30\<rparr>],
       log = [Debug ''GraphQL errors: %s'' (JList [JDict [(''message'', JStr ''bad creds'')]])]\<rparr>)"
  by (simp add: login_defs client_defs py_defs)

text \<open>
  However \<open>login\<close> fails, the client holds afterwards what it held before.
\<close>

lemma login_failure_keeps_credential:
  assumes "login net c username password w = (Inl e, c', w')"
  shows "c' = c"
  using assms
  by (auto simp: login_def split: prod.splits sum.splits if_splits)

theorem login_failure_keeps_credential_witness:
  "fst (snd (login (\<lambda>r. Response 200 (Some (JDict
                 [(''errors'', JList [JDict [(''message'', JStr ''bad creds'')]])])))
               (init (JStr ''T'') (JStr ''R'')) ''u'' ''p'' \<lparr>sent = [], log = []\<rparr>))
   = init (JStr ''T'') (JStr ''R'')"
proof -
  let ?l = "login (\<lambda>r. Response 200 (Some (JDict
                 [(''errors'', JList [JDict [(''message'', JStr ''bad creds'')]])])))
               (init (JStr ''T'') (JStr ''R'')) ''u'' ''p'' \<lparr>sent = [], log = []\<rparr>"
  have "fst ?l = Inl (Exception (JStr ''bad creds''))"
    by (simp add: login_defs client_defs py_defs)
  then have "?l = (Inl (Exception (JStr ''bad creds'')), fst (snd ?l), snd (snd ?l))"
    by (simp add: prod_eq_iff)
  then show ?thesis
    by (rule login_failure_keeps_credential)
qed

section \<open>Properties of the coordinator\<close>

lemma nested_get_shaped:
  assumes "py_get data part = Inr p" and "response_shaped p"
  shows "nested_get data part k = Inr (response_node p k)"
proof (cases p)
  case (JDict kv)
  show ?thesis
  proof (cases "map_of kv ''data''")
    case None
    with JDict assms show ?thesis
      by (simp add: nested_get_def response_node_def py_defs)
  next
    case (Some d)
    with JDict assms show ?thesis
      by (cases d) (auto simp: nested_get_def response_node_def response_shaped_def
            object_or_empty_def py_defs)
  qed
qed (use assms in \<open>auto simp: nested_get_def response_node_def response_shaped_def
        object_or_empty_def py_defs\<close>)

lemma nested_get_success:
  assumes "py_get data part = Inr p" and "nested_get data part k = Inr v"
  shows "v = response_node p k"
proof (cases p)
  case (JDict kv)
  show ?thesis
  proof (cases "map_of kv ''data''")
    case None
    with JDict assms show ?thesis
      by (auto simp: nested_get_def response_node_def py_defs split: if_splits)
  next
    case (Some d)
    with JDict assms show ?thesis
      by (cases d) (auto simp: nested_get_def response_node_def py_defs split: if_splits)
  qed
qed (use assms in \<open>auto simp: nested_get_def response_node_def py_defs split: if_splits\<close>)

lemma py_get_fetched:
  "py_get (JDict [(''summary'', summ), (''sessions'', sess)]) ''summary'' = Inr summ"
  "py_get (JDict [(''summary'', summ), (''sessions'', sess)]) ''sessions'' = Inr sess"
  by (simp_all add: py_get_def)

lemma fetch_result:
  assumes "fetch net c dev now w = (Inr data, w')"
  shows "\<exists>summ sess. data = JDict [(''summary'', summ), (''sessions'', sess)]
           \<and> fst (get_smart_battery_summary net c dev w) = Inr summ"
  using assms by (auto simp: fetch_def split: prod.splits sum.splits)

text \<open>
  \<^bold>\<open>C7\<close> (as amended). The claim: whenever the sessions payload of a poll lacks the
  \<open>smartBatterySessions\<close> node, the poll completes without raising, the stored session
  window becomes \<open>None\<close> and a warning is logged. The extraction calls \<^verbatim>\<open>.get\<close> on
  whatever non-empty value it finds, so a payload whose \<open>data\<close> member is, say, a list
  makes the poll raise \<open>AttributeError\<close>. What holds: when both reads of the poll
  return, both payloads have the shape of a GraphQL response, and the sessions payload
  has no \<open>smartBatterySessions\<close> node (or a null or empty one), the poll returns the
  fetched data, stores the summary node, sets the session window to \<open>None\<close> and logs
  one warning.
\<close>

theorem refresh_without_sessions_node:
  assumes "fetch net c (device_id co) now w
             = (Inr (JDict [(''summary'', summ), (''sessions'', sess)]), w')"
    and "response_shaped summ" and "response_shaped sess"
    and "\<not> truthy (response_node sess ''smartBatterySessions'')"
  shows "async_update_data net c now co w =
           (Inr (JDict [(''summary'', summ), (''sessions'', sess)]),
            co\<lparr>summary := response_node summ ''smartBatterySummary'', sessions_node := JNull\<rparr>,
            w'\<lparr>log := log w' @ [Warning ''Geen smartBatterySessions in response voor %s''
                                   (JStr (device_id co))]\<rparr>)"
proof -
  let ?data = "JDict [(''summary'', summ), (''sessions'', sess)]"
  have s: "nested_get ?data ''summary'' ''smartBatterySummary''
             = Inr (response_node summ ''smartBatterySummary'')"
    using assms(2) by (simp add: nested_get_shaped py_get_fetched)
  have n: "nested_get ?data ''sessions'' ''smartBatterySessions''
             = Inr (response_node sess ''smartBatterySessions'')"
    using assms(3) by (simp add: nested_get_shaped py_get_fetched)
  show ?thesis
    using assms(1,4) s n by (simp add: async_update_data_def)
qed

lemma store_sessions_dict: "\<exists>stored. store_sessions (JDict kv) = Inr stored"
  by (simp add: store_sessions_def py_get_def)

text \<open>
  \<^bold>\<open>C8\<close> (as amended). The claim: every poll replaces the stored summary by the
  \<open>smartBatterySummary\<close> node of its response, and stores \<open>None\<close>, without raising,
  when the summary payload lacks the node. The extraction calls \<^verbatim>\<open>.get\<close> on
  whatever non-empty value it finds, so a summary payload such as
  \<^verbatim>\<open>{"data": [1]}\<close>, which lacks the node, makes the poll raise and leaves the old
  summary in place. What holds: when both reads of the poll return and the summary
  payload has the shape of a GraphQL response, the summary extraction does not raise;
  the stored summary is afterwards the node of that payload (\<open>None\<close> when the payload
  lacks it), whatever the rest of the poll does; the whole outcome is the same for
  every summary stored before; and the poll returns the fetched data when the sessions
  payload has that shape too and its \<open>smartBatterySessions\<close> node is an object, null,
  empty or missing.
\<close>

theorem refresh_replaces_summary:
  assumes "fetch net c (device_id co) now w
             = (Inr (JDict [(''summary'', summ), (''sessions'', sess)]), w')"
    and "response_shaped summ"
  shows "nested_get (JDict [(''summary'', summ), (''sessions'', sess)])
           ''summary'' ''smartBatterySummary''
         = Inr (response_node summ ''smartBatterySummary'')
    \<and> summary (fst (snd (async_update_data net c now co w)))
         = response_node summ ''smartBatterySummary''
    \<and> (\<forall>previous. async_update_data net c now (co\<lparr>summary := previous\<rparr>) w
                     = async_update_data net c now co w)
    \<and> (response_shaped sess \<and>
         (is_dict (response_node sess ''smartBatterySessions'')
          \<or> \<not> truthy (response_node sess ''smartBatterySessions''))
        \<longrightarrow> fst (async_update_data net c now co w)
              = Inr (JDict [(''summary'', summ), (''sessions'', sess)]))"
proof -
  let ?data = "JDict [(''summary'', summ), (''sessions'', sess)]"
  let ?s = "response_node summ ''smartBatterySummary''"
  let ?n = "response_node sess ''smartBatterySessions''"
  have s: "nested_get ?data ''summary'' ''smartBatterySummary'' = Inr ?s"
    using assms(2) by (simp add: nested_get_shaped py_get_fetched)
  have 1: "summary (fst (snd (async_update_data net c now co w))) = ?s"
    using assms(1) s
    by (simp add: async_update_data_def Let_def split: sum.splits)
  have 2: "async_update_data net c now (co\<lparr>summary := previous\<rparr>) w
             = async_update_data net c now co w" for previous
    using assms(1) s by (simp add: async_update_data_def Let_def cong: sum.case_cong if_cong)
  have 3: "fst (async_update_data net c now co w) = Inr ?data"
    if sh: "response_shaped sess" and n: "is_dict ?n \<or> \<not> truthy ?n"
  proof -
    have g: "nested_get ?data ''sessions'' ''smartBatterySessions'' = Inr ?n"
      using sh by (simp add: nested_get_shaped py_get_fetched)
    show ?thesis
    proof (cases "truthy ?n")
      case False
      then show ?thesis
        using assms(1) s g by (simp add: async_update_data_def Let_def)
    next
      case True
      with n obtain kv where kv: "?n = JDict kv"
        by (cases ?n) auto
      obtain stored where "store_sessions (JDict kv) = Inr stored"
        using store_sessions_dict by blast
      then show ?thesis
        using assms(1) s g True kv by (simp add: async_update_data_def Let_def)
    qed
  qed
  show ?thesis
    using s 1 2 3 by blast
qed

lemmas date_defs = minus_days_def toordinal_def ord2ymd_def days_before_year_def
  days_before_month_def days_in_month_def is_leap_def DAYS_IN_MONTH_def DAYS_BEFORE_MONTH_def
  MAXORDINAL_def

lemma minus_days_example:
  "minus_days example_now 7
   = Inr \<lparr>year = 2024, month = 2, day = 27, hour = 12, minute = 0, second = 0, microsecond = 0\<rparr>"
  by (simp add: example_now_def date_defs Let_def)

lemma fetch_answering:
  assumes "\<not> has_errors a" and "\<not> has_errors b"
  shows "fetch (answering a b) (init (JStr ''T'') (JStr ''R'')) dev example_now w
           = (Inr (JDict [(''summary'', a), (''sessions'', b)]),
              w\<lparr>sent := sent w @
                [\<lparr>url = DATA_URL, json_body = summary_payload dev,
                  req_headers = base_headers @ [(''Authorization'', Bearer (JStr ''T''))],
                  timeout = 30\<rparr>,
                 \<lparr>url = DATA_URL,
                  json_body = sessions_payload dev (example_now\<lparr>month := 2, day := 27\<rparr>) example_now,
                  req_headers = base_headers @ [(''Authorization'', Bearer (JStr ''T''))],
                  timeout = 30\<rparr>]\<rparr>)"
proof -
  have h: "client_headers (init (JStr ''T'') (JStr ''R''))
             = Inr (base_headers @ [(''Authorization'', Bearer (JStr ''T''))])"
    by (simp add: client_headers_def auth_token_of_def init_def py_defs)
  have t: "truthy (auth (init (JStr ''T'') (JStr ''R'')))"
    by (simp add: init_def py_defs)
  have m: "minus_days example_now 7 = Inr (example_now\<lparr>month := 2, day := 27\<rparr>)"
    by (simp add: minus_days_example) (simp add: example_now_def)
  have 1: "get_smart_battery_summary (answering a b) (init (JStr ''T'') (JStr ''R'')) dev w
             = (Inr a, w\<lparr>sent := sent w @
                  [\<lparr>url = DATA_URL, json_body = summary_payload dev,
                    req_headers = base_headers @ [(''Authorization'', Bearer (JStr ''T''))],
                    timeout = 30\<rparr>]\<rparr>)"
    using assms(1) t
    by (simp add: get_smart_battery_summary_def query_def h handle_response_def
          raise_for_status_def answering_def summary_payload_def)
  have 2: "get_smart_battery_sessions (answering a b) (init (JStr ''T'') (JStr ''R'')) dev s e w1
             = (Inr b, w1\<lparr>sent := sent w1 @
                  [\<lparr>url = DATA_URL, json_body = sessions_payload dev s e,
                    req_headers = base_headers @ [(''Authorization'', Bearer (JStr ''T''))],
                    timeout = 30\<rparr>]\<rparr>)" for s e w1
    using assms(2) t
    by (simp add: get_smart_battery_sessions_def query_def h handle_response_def
          raise_for_status_def answering_def sessions_payload_def)
  show ?thesis
    by (simp add: fetch_def 1 m 2)
qed

theorem refresh_without_sessions_node_witness:
  "async_update_data
     (answering (JDict [(''data'', JDict [(''smartBatterySummary'',
                   JDict [(''lastKnownStatus'', JStr ''IDLE'')])])])
                (JDict [(''data'', JDict [])]))
     (init (JStr ''T'') (JStr ''R'')) example_now (new_coordinator ''dev-1'')
     \<lparr>sent = [], log = []\<rparr>
   = (Inr (JDict [(''summary'', JDict [(''data'', JDict [(''smartBatterySummary'',
                      JDict [(''lastKnownStatus'', JStr ''IDLE'')])])]),
                  (''sessions'', JDict [(''data'', JDict [])])]),
      \<lparr>device_id = ''dev-1'', summary = JDict [(''lastKnownStatus'', JStr ''IDLE'')],
       sessions_node = JNull\<rparr>,
      \<lparr>sent = [\<lparr>url = DATA_URL, json_body = summary_payload ''dev-1'',
                req_headers = base_headers @ [(''Authorization'', Bearer (JStr ''T''))],
                timeout = 30\<rparr>,
               \<lparr>url = DATA_URL,
                json_body = sessions_payload ''dev-1'' (example_now\<lparr>month := 2, day := 27\<rparr>)
                              example_now,
                req_headers = base_headers @ [(''Authorization'', Bearer (JStr ''T''))],
                timeout = 30\<rparr>],
       log = [Warning ''Geen smartBatterySessions in response voor %s'' (JStr ''dev-1'')]\<rparr>)"
proof -
  let ?summ = "JDict [(''data'', JDict [(''smartBatterySummary'',
                      JDict [(''lastKnownStatus'', JStr ''IDLE'')])])]"
  let ?sess = "JDict [(''data'', JDict [])]"
  have e: "\<not> has_errors ?summ" "\<not> has_errors ?sess"
    by (simp_all add: has_errors_def)
  note f = fetch_answering [OF e, of "device_id (new_coordinator ''dev-1'')" "\<lparr>sent = [], log = []\<rparr>"]
  have s1: "response_shaped ?summ" and s2: "response_shaped ?sess"
    by (simp_all add: response_shaped_def object_or_empty_def)
  have n: "\<not> truthy (response_node ?sess ''smartBatterySessions'')"
    by (simp add: response_node_def)
  show ?thesis
    using refresh_without_sessions_node [OF f s1 s2 n]
    by (simp add: response_node_def new_coordinator_def)
qed

lemma refresh_raises:
  assumes "fetch net c (device_id co) now w = (Inr data, w')"
    and "nested_get data ''summary'' ''smartBatterySummary'' = Inl e
         \<or> (\<exists>s. nested_get data ''summary'' ''smartBatterySummary'' = Inr s
                \<and> nested_get data ''sessions'' ''smartBatterySessions'' = Inl e)"
  shows "fst (async_update_data net c now co w) = Inl e"
  using assms by (auto simp: async_update_data_def)

text \<open>
  Against C7 as stated. Both reads return with status 200. First poll: the sessions
  payload is \<^verbatim>\<open>{"data": [1]}\<close>, which has no \<open>smartBatterySessions\<close> node; the
  extraction calls \<^verbatim>\<open>.get\<close> on the list and the poll raises \<open>AttributeError\<close>.
  Second poll: the sessions payload is \<^verbatim>\<open>{"data": {}}\<close> and the summary payload is
  \<^verbatim>\<open>{"data": [1]}\<close>; the summary extraction raises the same way.
\<close>

theorem refresh_without_sessions_node_counterexample:
  "fst (async_update_data
         (answering (JDict [(''data'', JDict [(''smartBatterySummary'',
                       JDict [(''lastKnownStatus'', JStr ''IDLE'')])])])
                    (JDict [(''data'', JList [JInt 1])]))
         (init (JStr ''T'') (JStr ''R'')) example_now (new_coordinator ''dev-1'')
         \<lparr>sent = [], log = []\<rparr>)
     = Inl AttributeError
   \<and> fst (async_update_data
         (answering (JDict [(''data'', JList [JInt 1])]) (JDict [(''data'', JDict [])]))
         (init (JStr ''T'') (JStr ''R'')) example_now (new_coordinator ''dev-1'')
         \<lparr>sent = [], log = []\<rparr>)
     = Inl AttributeError"
proof -
  let ?good = "JDict [(''data'', JDict [(''smartBatterySummary'',
                      JDict [(''lastKnownStatus'', JStr ''IDLE'')])])]"
  let ?bad = "JDict [(''data'', JList [JInt 1])]"
  let ?none = "JDict [(''data'', JDict [])]"
  let ?f1 = "fetch (answering ?good ?bad) (init (JStr ''T'') (JStr ''R''))
              (device_id (new_coordinator ''dev-1'')) example_now \<lparr>sent = [], log = []\<rparr>"
  let ?f2 = "fetch (answering ?bad ?none) (init (JStr ''T'') (JStr ''R''))
              (device_id (new_coordinator ''dev-1'')) example_now \<lparr>sent = [], log = []\<rparr>"
  have e: "\<not> has_errors ?good" "\<not> has_errors ?bad" "\<not> has_errors ?none"
    by (simp_all add: has_errors_def)
  note f1 = fetch_answering [OF e(1) e(2), of "device_id (new_coordinator ''dev-1'')"
                "\<lparr>sent = [], log = []\<rparr>"]
  note f2 = fetch_answering [OF e(2) e(3), of "device_id (new_coordinator ''dev-1'')"
                "\<lparr>sent = [], log = []\<rparr>"]
  have 1: "fst (async_update_data (answering ?good ?bad) (init (JStr ''T'') (JStr ''R''))
                  example_now (new_coordinator ''dev-1'') \<lparr>sent = [], log = []\<rparr>)
             = Inl AttributeError"
    by (rule refresh_raises [OF f1]) (simp add: nested_get_def py_defs)
  have 2: "fst (async_update_data (answering ?bad ?none) (init (JStr ''T'') (JStr ''R''))
                  example_now (new_coordinator ''dev-1'') \<lparr>sent = [], log = []\<rparr>)
             = Inl AttributeError"
    by (rule refresh_raises [OF f2]) (simp add: nested_get_def py_defs)
  show ?thesis
    using 1 2 by simp
qed

theorem refresh_replaces_summary_witness:
  "async_update_data (answering (JDict [(''data'', JNull)]) (JDict [(''data'', JDict [])]))
     (init (JStr ''T'') (JStr ''R'')) example_now
     \<lparr>device_id = ''dev-1'', summary = JDict [(''lastKnownStatus'', JStr ''IDLE'')],
      sessions_node = JNull\<rparr>
     \<lparr>sent = [], log = []\<rparr>
   = async_update_data (answering (JDict [(''data'', JNull)]) (JDict [(''data'', JDict [])]))
       (init (JStr ''T'') (JStr ''R'')) example_now (new_coordinator ''dev-1'')
       \<lparr>sent = [], log = []\<rparr>
   \<and> summary (fst (snd (async_update_data
         (answering (JDict [(''data'', JNull)]) (JDict [(''data'', JDict [])]))
         (init (JStr ''T'') (JStr ''R'')) example_now
         \<lparr>device_id = ''dev-1'', summary = JDict [(''lastKnownStatus'', JStr ''IDLE'')],
          sessions_node = JNull\<rparr>
         \<lparr>sent = [], log = []\<rparr>))) = JNull
   \<and> fst (async_update_data
         (answering (JDict [(''data'', JNull)]) (JDict [(''data'', JDict [])]))
         (init (JStr ''T'') (JStr ''R'')) example_now
         \<lparr>device_id = ''dev-1'', summary = JDict [(''lastKnownStatus'', JStr ''IDLE'')],
          sessions_node = JNull\<rparr>
         \<lparr>sent = [], log = []\<rparr>)
     = Inr (JDict [(''summary'', JDict [(''data'', JNull)]),
                   (''sessions'', JDict [(''data'', JDict [])])])"
proof -
  let ?null = "JDict [(''data'', JNull)]"
  let ?none = "JDict [(''data'', JDict [])]"
  let ?co = "new_coordinator ''dev-1''"
  have e: "\<not> has_errors ?null" "\<not> has_errors ?none"
    by (simp_all add: has_errors_def)
  note f = fetch_answering [OF e, of "device_id ?co" "\<lparr>sent = [], log = []\<rparr>"]
  have s: "response_shaped ?null" "response_shaped ?none"
    by (simp_all add: response_shaped_def object_or_empty_def)
  have n: "is_dict (response_node ?none ''smartBatterySessions'')
           \<or> \<not> truthy (response_node ?none ''smartBatterySessions'')"
    by (simp add: response_node_def)
  have c: "?co\<lparr>summary := JDict [(''lastKnownStatus'', JStr ''IDLE'')]\<rparr>
             = \<lparr>device_id = ''dev-1'', summary = JDict [(''lastKnownStatus'', JStr ''IDLE'')],
                sessions_node = JNull\<rparr>"
    by (simp add: new_coordinator_def)
  note r = refresh_replaces_summary [OF f s(1)]
  from r have 1: "summary (fst (snd (async_update_data (answering ?null ?none)
                     (init (JStr ''T'') (JStr ''R'')) example_now ?co \<lparr>sent = [], log = []\<rparr>)))
                  = JNull"
    by (simp add: response_node_def)
  from r have 2: "async_update_data (answering ?null ?none) (init (JStr ''T'') (JStr ''R''))
                    example_now (?co\<lparr>summary := JDict [(''lastKnownStatus'', JStr ''IDLE'')]\<rparr>)
                    \<lparr>sent = [], log = []\<rparr>
                  = async_update_data (answering ?null ?none) (init (JStr ''T'') (JStr ''R''))
                      example_now ?co \<lparr>sent = [], log = []\<rparr>"
    by blast
  from r s(2) n have 3: "fst (async_update_data (answering ?null ?none)
                     (init (JStr ''T'') (JStr ''R'')) example_now ?co \<lparr>sent = [], log = []\<rparr>)
                  = Inr (JDict [(''summary'', ?null), (''sessions'', ?none)])"
    by blast
  show ?thesis
    using 1 2 3 unfolding c by simp
qed

text \<open>
  Against C8 as stated. Both reads return with status 200; the summary payload is
  \<^verbatim>\<open>{"data": [1]}\<close>, which has no \<open>smartBatterySummary\<close> node. The extraction
  calls \<^verbatim>\<open>.get\<close> on the list: the poll raises \<open>AttributeError\<close>, and the summary
  stored before is still there.
\<close>

theorem refresh_replaces_summary_counterexample:
  "async_update_data (answering (JDict [(''data'', JList [JInt 1])]) (JDict [(''data'', JDict [])]))
     (init (JStr ''T'') (JStr ''R'')) example_now
     \<lparr>device_id = ''dev-1'', summary = JDict [(''lastKnownStatus'', JStr ''IDLE'')],
      sessions_node = JNull\<rparr>
     \<lparr>sent = [], log = []\<rparr>
   = (Inl AttributeError,
      \<lparr>device_id = ''dev-1'', summary = JDict [(''lastKnownStatus'', JStr ''IDLE'')],
       sessions_node = JNull\<rparr>,
      \<lparr>sent = [\<lparr>url = DATA_URL, json_body = summary_payload ''dev-1'',
                req_headers = base_headers @ [(''Authorization'', Bearer (JStr ''T''))],
                timeout = 30\<rparr>,
               \<lparr>url = DATA_URL,
                json_body = sessions_payload ''dev-1'' (example_now\<lparr>month := 2, day := 27\<rparr>)
                              example_now,
                req_headers = base_headers @ [(''Authorization'', Bearer (JStr ''T''))],
                timeout = 30\<rparr>],
       log = []\<rparr>)
   \<and> response_node (JDict [(''data'', JList [JInt 1])]) ''smartBatterySummary'' = JNull"
proof -
  let ?bad = "JDict [(''data'', JList [JInt 1])]"
  let ?none = "JDict [(''data'', JDict [])]"
  have e: "\<not> has_errors ?bad" "\<not> has_errors ?none"
    by (simp_all add: has_errors_def)
  note f = fetch_answering [OF e, of "''dev-1''" "\<lparr>sent = [], log = []\<rparr>"]
  show ?thesis
    by (simp add: async_update_data_def f nested_get_def py_defs response_node_def)
qed

section \<open>The trading result and the dates\<close>

lemma trading_result_state_cached:
  assumes "sessions_node co = JDict [(''periodTradingResult'', p), (''sessions'', JList ss)]"
    and "p = JNull \<Longrightarrow> ss \<noteq> [] \<Longrightarrow> is_dict (last ss)"
  shows "trading_result_state co =
           Inr (if p \<noteq> JNull then p
                else if ss \<noteq> [] then field_of (last ss) ''cumulativeResult''
                else JNull)"
proof (cases "p = JNull")
  case False
  with assms(1) show ?thesis
    by (simp add: trading_result_state_def py_defs)
next
  case True
  show ?thesis
  proof (cases "ss = []")
    case True
    with \<open>p = JNull\<close> assms(1) show ?thesis
      by (simp add: trading_result_state_def py_defs)
  next
    case False
    with \<open>p = JNull\<close> assms(2) obtain kv where kv: "last ss = JDict kv"
      by (cases "last ss") auto
    obtain x xs where xs: "ss = x # xs"
      using False by (cases ss) auto
    have "py_index ss (- 1) = Inr (last ss)"
      unfolding xs by (simp add: py_index_def last_conv_nth)
    with \<open>p = JNull\<close> False assms(1) kv show ?thesis
      by (simp add: trading_result_state_def py_get_def py_or_def)
  qed
qed

text \<open>
  What the coordinator caches for a node whose \<open>sessions\<close> member is a list: a dict of
  \<open>periodTradingResult\<close> (\<open>None\<close> when the node has none) and that list.
\<close>

lemma store_sessions_cached:
  assumes "map_of kv ''sessions'' = Some (JList ss)"
  shows "store_sessions (JDict kv)
           = Inr (JDict [(''periodTradingResult'', field_of (JDict kv) ''periodTradingResult''),
                         (''sessions'', JList ss)])"
  using assms by (cases ss) (simp_all add: store_sessions_def py_defs split: option.splits)

text \<open>
  \<^bold>\<open>C2\<close>. For every cached session window (the dict the coordinator stores, with a list
  of session records), the state of the trading result sensor is \<open>periodTradingResult\<close>
  when that is not null, else the \<open>cumulativeResult\<close> of the last session when the list
  is not empty, else \<open>None\<close>. With the sessions of 2024-01-01 (cumulative result 10) and
  2024-01-02 (cumulative result 15), whatever their other members: 15 when
  \<open>periodTradingResult\<close> is null, 42 when it is 42.
\<close>

theorem trading_result_state_value:
  assumes "sessions_node co = JDict [(''periodTradingResult'', p), (''sessions'', JList ss)]"
    and "p = JNull \<Longrightarrow> ss \<noteq> [] \<Longrightarrow> is_dict (last ss)"
  shows "trading_result_state co =
           Inr (if p \<noteq> JNull then p
                else if ss \<noteq> [] then field_of (last ss) ''cumulativeResult''
                else JNull)
    \<and> trading_result_state
        (co\<lparr>sessions_node := JDict [(''periodTradingResult'', JNull), (''sessions'', JList
           [JDict ((''date'', JStr ''2024-01-01'') # (''cumulativeResult'', JInt 10) # r1),
            JDict ((''date'', JStr ''2024-01-02'') # (''cumulativeResult'', JInt 15) # r2)])]\<rparr>)
      = Inr (JInt 15)
    \<and> trading_result_state
        (co\<lparr>sessions_node := JDict [(''periodTradingResult'', JInt 42),
                                    (''sessions'', JList (s # rest))]\<rparr>)
      = Inr (JInt 42)"
proof -
  have 1: "trading_result_state
        (co\<lparr>sessions_node := JDict [(''periodTradingResult'', JNull), (''sessions'', JList
           [JDict ((''date'', JStr ''2024-01-01'') # (''cumulativeResult'', JInt 10) # r1),
            JDict ((''date'', JStr ''2024-01-02'') # (''cumulativeResult'', JInt 15) # r2)])]\<rparr>)
      = Inr (JInt 15)"
    by (subst trading_result_state_cached [where p = JNull and ss =
           "[JDict ((''date'', JStr ''2024-01-01'') # (''cumulativeResult'', JInt 10) # r1),
             JDict ((''date'', JStr ''2024-01-02'') # (''cumulativeResult'', JInt 15) # r2)]"])
       simp_all
  have 2: "trading_result_state
        (co\<lparr>sessions_node := JDict [(''periodTradingResult'', JInt 42),
                                    (''sessions'', JList (s # rest))]\<rparr>)
      = Inr (JInt 42)"
    by (subst trading_result_state_cached [where p = "JInt 42" and ss = "s # rest"]) simp_all
  show ?thesis
    using trading_result_state_cached [OF assms] 1 2 by simp
qed

theorem trading_result_state_value_witness:
  "trading_result_state
     \<lparr>device_id = ''dev-1'', summary = JNull,
      sessions_node = JDict [(''periodTradingResult'', JNull), (''sessions'', JList
        [JDict [(''date'', JStr ''2024-01-01''), (''cumulativeResult'', JInt 10)],
         JDict [(''date'', JStr ''2024-01-02''), (''cumulativeResult'', JInt 15)]])]\<rparr>
   = Inr (JInt 15)
   \<and> trading_result_state
     \<lparr>device_id = ''dev-1'', summary = JNull,
      sessions_node = JDict [(''periodTradingResult'', JNull), (''sessions'', JList [])]\<rparr>
   = Inr JNull"
  using trading_result_state_value
    [of "\<lparr>device_id = ''dev-1'', summary = JNull,
          sessions_node = JDict [(''periodTradingResult'', JNull), (''sessions'', JList
            [JDict [(''date'', JStr ''2024-01-01''), (''cumulativeResult'', JInt 10)],
             JDict [(''date'', JStr ''2024-01-02''), (''cumulativeResult'', JInt 15)]])]\<rparr>"
        JNull
        "[JDict [(''date'', JStr ''2024-01-01''), (''cumulativeResult'', JInt 10)],
          JDict [(''date'', JStr ''2024-01-02''), (''cumulativeResult'', JInt 15)]]"]
    trading_result_state_value
    [of "\<lparr>device_id = ''dev-1'', summary = JNull,
          sessions_node = JDict [(''periodTradingResult'', JNull), (''sessions'', JList [])]\<rparr>"
        JNull "[]"]
  by simp

lemma digit_props:
  "is_digit (digit n)" "of_char (digit n) - 48 = n mod 10"
proof -
  have "0 \<le> n mod 10" "n mod 10 < 10" by simp_all
  then have "n mod 10 = 0 \<or> n mod 10 = 1 \<or> n mod 10 = 2 \<or> n mod 10 = 3 \<or> n mod 10 = 4
      \<or> n mod 10 = 5 \<or> n mod 10 = 6 \<or> n mod 10 = 7 \<or> n mod 10 = 8 \<or> n mod 10 = 9"
    by arith
  then show "is_digit (digit n)" "of_char (digit n) - 48 = n mod 10"
    by (auto simp: digit_def is_digit_def)
qed

lemma days_in_month_le:
  assumes "1 \<le> m" and "m \<le> 12"
  shows "days_in_month y m \<le> 31"
proof -
  have "m = 1 \<or> m = 2 \<or> m = 3 \<or> m = 4 \<or> m = 5 \<or> m = 6 \<or> m = 7 \<or> m = 8 \<or> m = 9
      \<or> m = 10 \<or> m = 11 \<or> m = 12"
    using assms by arith
  then show ?thesis
    by (auto simp: days_in_month_def DAYS_IN_MONTH_def)
qed

lemma two_digits:
  fixes m :: int
  assumes "0 \<le> m" and "m < 100"
  shows "10 * (m div 10 mod 10) + m mod 10 = m"
proof -
  have "m div 10 < 10" using assms by simp
  moreover have "0 \<le> m div 10" using assms by simp
  ultimately have "m div 10 mod 10 = m div 10" by simp
  then show ?thesis by simp
qed

lemma four_digits:
  fixes y :: int
  assumes "0 \<le> y" and "y < 10000"
  shows "10 * (10 * (10 * (y div 1000 mod 10) + y div 100 mod 10) + y div 10 mod 10) + y mod 10 = y"
proof -
  have a: "y div 100 = y div 10 div 10" "y div 1000 = y div 100 div 10"
    by (simp_all add: zdiv_zmult2_eq [symmetric])
  have "0 \<le> y div 1000" "y div 1000 < 10" using assms by simp_all
  then have b: "y div 1000 mod 10 = y div 1000" by simp
  have c: "10 * (y div 1000) + y div 100 mod 10 = y div 100"
    unfolding a(2) by simp
  have d: "10 * (y div 100) + y div 10 mod 10 = y div 10"
    unfolding a(1) by simp
  show ?thesis
    unfolding b c d by simp
qed

lemma decimal4:
  "decimal [digit a, digit b, digit c, digit e]
     = 10 * (10 * (10 * (a mod 10) + b mod 10) + c mod 10) + e mod 10"
  by (simp add: decimal_def digit_props(2))

lemma decimal2: "decimal [digit a, digit b] = 10 * (a mod 10) + b mod 10"
  by (simp add: decimal_def digit_props(2))

lemma strftime_Ymd_form:
  assumes "valid_datetime d" and "1000 \<le> year d"
  shows "Ymd_form (strftime_Ymd d) (year d) (month d) (day d)"
proof -
  let ?s = "strftime_Ymd d"
  have y: "0 \<le> year d" "year d < 10000" and m: "0 \<le> month d" "month d < 100"
    and m': "1 \<le> month d" "month d \<le> 12"
    and dd: "0 \<le> day d" "day d \<le> days_in_month (year d) (month d)"
    using assms(1) by (simp_all add: valid_datetime_def)
  have dd': "day d < 100"
    using dd(2) days_in_month_le [OF m', of "year d"] by simp
  have yd: "year_digits (year d) = [digit (year d div 1000), digit (year d div 100),
                                    digit (year d div 10), digit (year d)]"
    using assms(2) by (simp add: year_digits_def)
  have t1: "take 4 ?s = [digit (year d div 1000), digit (year d div 100), digit (year d div 10),
                         digit (year d)]"
    and t2: "take 2 (drop 5 ?s) = [digit (month d div 10), digit (month d)]"
    and t3: "drop 8 ?s = [digit (day d div 10), digit (day d)]"
    and l: "length ?s = 10" "?s ! 4 = CHR ''-''" "?s ! 7 = CHR ''-''"
    by (simp_all add: strftime_Ymd_def yd)
  have 1: "decimal (take 4 ?s) = year d"
    unfolding t1 decimal4 by (rule four_digits [OF y])
  have 2: "decimal (take 2 (drop 5 ?s)) = month d"
    unfolding t2 decimal2 by (rule two_digits [OF m])
  have 3: "decimal (drop 8 ?s) = day d"
    unfolding t3 decimal2 by (rule two_digits [OF dd(1) dd'])
  have 4: "list_all is_digit (take 4 ?s @ take 2 (drop 5 ?s) @ drop 8 ?s)"
    unfolding t1 t2 t3 by (simp add: digit_props(1))
  show ?thesis
    unfolding Ymd_form_def using l 1 2 3 4 by blast
qed

lemma strftime_example:
  "strftime_Ymd \<lparr>year = 2024, month = 3, day = 5, hour = h, minute = mi, second = s,
                  microsecond = us\<rparr> = ''2024-03-05''"
  by (simp add: strftime_Ymd_def year_digits_def digit_def)

text \<open>
  \<^bold>\<open>C10\<close> (as amended). The claim: every date is serialized into \<open>startDate\<close> and
  \<open>endDate\<close> in the form \<open>YYYY-MM-DD\<close>. The year is printed without padding, so a
  date before the year 1000 gives fewer than four year digits. What holds: the sessions
  request carries \<open>startDate\<close> and \<open>endDate\<close> as the strings that
  \<^verbatim>\<open>strftime("%Y-%m-%d")\<close> gives; for every valid date with a year from 1000 on,
  that string has the form \<open>YYYY-MM-DD\<close> and reads back as the date; and 2024-03-05 is
  serialized as \<open>2024-03-05\<close>.
\<close>

theorem sessions_dates_serialized:
  assumes "valid_datetime start_date" and "1000 \<le> year start_date"
    and "valid_datetime end_date" and "1000 \<le> year end_date"
    and "truthy (auth c)" and "client_headers c = Inr h"
  shows "sent (snd (get_smart_battery_sessions net c dev start_date end_date w))
           = sent w @ [\<lparr>url = DATA_URL,
                          json_body = \<lparr>query_doc = SmartBatterySessionsQuery,
                            operationName = ''SmartBatterySessions'',
                            variables = Some [(''deviceId'', JStr dev),
                              (''startDate'', JStr (strftime_Ymd start_date)),
                              (''endDate'', JStr (strftime_Ymd end_date))]\<rparr>,
                          req_headers = h, timeout = 30\<rparr>]
    \<and> Ymd_form (strftime_Ymd start_date) (year start_date) (month start_date) (day start_date)
    \<and> Ymd_form (strftime_Ymd end_date) (year end_date) (month end_date) (day end_date)
    \<and> strftime_Ymd \<lparr>year = 2024, month = 3, day = 5, hour = hh, minute = mm, second = ss,
                      microsecond = us\<rparr> = ''2024-03-05''"
proof -
  have "sent (snd (query net c (sessions_payload dev start_date end_date) w))
          = sent w @ [\<lparr>url = DATA_URL, json_body = sessions_payload dev start_date end_date,
                         req_headers = h, timeout = 30\<rparr>]"
    using assms(6) by (simp add: query_def Let_def sent_handle_response)
  then show ?thesis
    using assms(5) strftime_Ymd_form [OF assms(1,2)] strftime_Ymd_form [OF assms(3,4)]
      strftime_example
    by (simp add: get_smart_battery_sessions_def sessions_payload_def)
qed

theorem sessions_dates_serialized_witness:
  "sent (snd (get_smart_battery_sessions (\<lambda>r. NoResponse) (init (JStr ''T'') (JStr ''R''))
       ''dev-1''
       \<lparr>year = 2024, month = 2, day = 27, hour = 12, minute = 0, second = 0, microsecond = 0\<rparr>
       \<lparr>year = 2024, month = 3, day = 5, hour = 12, minute = 0, second = 0, microsecond = 0\<rparr>
       \<lparr>sent = [], log = []\<rparr>))
   = [\<lparr>url = DATA_URL,
       json_body = \<lparr>query_doc = SmartBatterySessionsQuery,
         operationName = ''SmartBatterySessions'',
         variables = Some [(''deviceId'', JStr ''dev-1''), (''startDate'', JStr ''2024-02-27''),
                           (''endDate'', JStr ''2024-03-05'')]\<rparr>,
       req_headers = base_headers @ [(''Authorization'', Bearer (JStr ''T''))], timeout = 30\<rparr>]"
proof -
  let ?s = "\<lparr>year = 2024, month = 2, day = 27, hour = 12, minute = 0, second = 0,
              microsecond = 0\<rparr>"
  let ?e = "\<lparr>year = 2024, month = 3, day = 5, hour = 12, minute = 0, second = 0,
              microsecond = 0\<rparr>"
  have v: "valid_datetime ?s" "valid_datetime ?e"
    by (simp_all add: valid_datetime_def days_in_month_def is_leap_def DAYS_IN_MONTH_def)
  have y: "1000 \<le> year ?s" "1000 \<le> year ?e"
    by simp_all
  have t: "truthy (auth (init (JStr ''T'') (JStr ''R'')))"
    by (simp add: init_def py_defs)
  have h: "client_headers (init (JStr ''T'') (JStr ''R''))
             = Inr (base_headers @ [(''Authorization'', Bearer (JStr ''T''))])"
    by (simp add: client_headers_def auth_token_of_def init_def py_defs)
  have f: "strftime_Ymd ?s = ''2024-02-27''" "strftime_Ymd ?e = ''2024-03-05''"
    by (simp_all add: strftime_Ymd_def year_digits_def digit_def)
  show ?thesis
    using sessions_dates_serialized [OF v(1) y(1) v(2) y(2) t h, of "\<lambda>r. NoResponse" "''dev-1''"
        "\<lparr>sent = [], log = []\<rparr>"] f
    by simp
qed

text \<open>
  Against C10 as stated. The fifth of March of the year 999 is a valid date; it is
  serialized as \<open>999-03-05\<close>, nine characters, which is not the form \<open>YYYY-MM-DD\<close>.
\<close>

theorem sessions_dates_serialized_counterexample:
  "valid_datetime \<lparr>year = 999, month = 3, day = 5, hour = 0, minute = 0, second = 0,
                    microsecond = 0\<rparr>
   \<and> strftime_Ymd \<lparr>year = 999, month = 3, day = 5, hour = 0, minute = 0, second = 0,
                     microsecond = 0\<rparr> = ''999-03-05''
   \<and> \<not> Ymd_form (strftime_Ymd \<lparr>year = 999, month = 3, day = 5, hour = 0, minute = 0,
                                   second = 0, microsecond = 0\<rparr>) 999 3 5
   \<and> variables (sessions_payload ''dev-1''
        \<lparr>year = 999, month = 3, day = 5, hour = 0, minute = 0, second = 0, microsecond = 0\<rparr>
        \<lparr>year = 999, month = 3, day = 12, hour = 0, minute = 0, second = 0, microsecond = 0\<rparr>)
     = Some [(''deviceId'', JStr ''dev-1''), (''startDate'', JStr ''999-03-05''),
             (''endDate'', JStr ''999-03-12'')]"
  by (simp add: valid_datetime_def days_in_month_def is_leap_def DAYS_IN_MONTH_def
        strftime_Ymd_def year_digits_def digit_def Ymd_form_def sessions_payload_def)

end
